theory Spec2Isabelle
  imports Main "HOL-Library.Sublist" "HOL-Library.AList" "HOL-Library.Word"
begin

section \<open>Values, errors and the file store\<close>

text \<open>
  A Go value of type \<^verbatim>\<open>any\<close> as the decoders of the three formats produce it.
  \<^item> \<open>AInt\<close> is an \<^verbatim>\<open>int\<close> or \<^verbatim>\<open>int64\<close>; no function of the program computes with it.
  \<^item> \<open>AFloat\<close> is a \<^verbatim>\<open>float64\<close>, carried as its 64 bits.
  \<^item> \<open>ASlice\<close> is \<^verbatim>\<open>[]any\<close>, \<open>AMap\<close> is \<^verbatim>\<open>map[string]any\<close> (an association list, looked
    up with \<open>map_of\<close> and written with \<open>AList.update\<close>), \<open>ATables\<close> is
    \<^verbatim>\<open>[]map[string]interface{}\<close> (a TOML array of tables).
  \<^item> \<open>AMapAny\<close> is \<^verbatim>\<open>map[any]any\<close>. The program reads a key of such a map only through
    \<^verbatim>\<open>fmt.Sprintf("%v", k)\<close>, so each key is carried as that rendering; two keys may
    share a rendering, and the entries stand in the order \<^verbatim>\<open>range\<close> visits them.
\<close>

datatype any =
    ANil
  | ABool bool
  | AInt int
  | AFloat "64 word"
  | AStr string
  | ASlice "any list"
  | AMap "(string \<times> any) list"
  | AMapAny "(string \<times> any) list"
  | ATables "(string \<times> any) list list"

type_synonym FileFormat = string

definition FormatJSON :: FileFormat where "FormatJSON = ''json''"
definition FormatYAML :: FileFormat where "FormatYAML = ''yaml''"
definition FormatTOML :: FileFormat where "FormatTOML = ''toml''"

text \<open>Every error the parser package returns, one constructor per \<^verbatim>\<open>fmt.Errorf\<close> site.\<close>

datatype perr =
    ReadFailed
  | WriteFailed
  | UnsupportedFormat FileFormat
  | UnsupportedTargeted FileFormat
  | ParseFailed FileFormat
  | MarshalFailed FileFormat
  | NoKeyPathsFound
  | InvalidArrayIndex string
  | NegativeArrayIndex int
  | InvalidArraySyntax string
  | InvalidKeySegment string perr
  | KeyNotFound string
  | NotAnObject string
  | IndexOutOfBounds int string nat
  | NotAnArray string int
  | UnexpectedEnd
  | ArrayKeyNotFound string
  | CannotSetPrimitive string int
  | CannotSetNonObject
  | ConflictsNonObject string

text \<open>
  The files the program reads and writes: a store from paths to contents. \<^verbatim>\<open>os.ReadFile\<close>
  fails on a path the store does not hold, \<^verbatim>\<open>os.WriteFile\<close> on a path marked unwritable
  (the store is then left as it was).
\<close>

record filesystem =
  files :: "string \<rightharpoonup> string"
  unwritable :: "string \<Rightarrow> bool"

definition ReadFile :: "filesystem \<Rightarrow> string \<Rightarrow> perr + string" where
  "ReadFile fs path = (case files fs path of None \<Rightarrow> Inl ReadFailed | Some d \<Rightarrow> Inr d)"

definition WriteFile :: "filesystem \<Rightarrow> string \<Rightarrow> string \<Rightarrow> perr + filesystem" where
  "WriteFile fs path d =
     (if unwritable fs path then Inl WriteFailed
      else Inr (fs\<lparr>files := (files fs)(path \<mapsto> d)\<rparr>))"

text \<open>
  The library functions the program calls and this development does not define: the three
  decoders into \<^verbatim>\<open>map[string]any\<close>, the three encoders, and the \<^verbatim>\<open>%v\<close> verb of package fmt.
\<close>

record golib =
  json_Unmarshal :: "string \<Rightarrow> (string \<times> any) list option"
  yaml_Unmarshal :: "string \<Rightarrow> (string \<times> any) list option"
  toml_Unmarshal :: "string \<Rightarrow> (string \<times> any) list option"
  json_MarshalIndent :: "(string \<times> any) list \<Rightarrow> string option"
  yaml_Marshal :: "(string \<times> any) list \<Rightarrow> string option"
  toml_Encode :: "(string \<times> any) list \<Rightarrow> string option"
  fmt_v :: "any \<Rightarrow> string"

section \<open>Format detection and loading (pkg/models, parser.LoadFile)\<close>

text \<open>\<^verbatim>\<open>len(filepath) >= n && filepath[len(filepath)-n:] == ext\<close>, with \<open>n\<close> the length of \<open>ext\<close>.\<close>

definition hasExt :: "string \<Rightarrow> string \<Rightarrow> bool" where
  "hasExt filepath ext =
     (length filepath \<ge> length ext \<and> drop (length filepath - length ext) filepath = ext)"

definition DetectFormat :: "string \<Rightarrow> FileFormat" where
  "DetectFormat filepath =
     (if hasExt filepath ''.yaml'' then FormatYAML
      else if hasExt filepath ''.yml'' then FormatYAML
      else if hasExt filepath ''.toml'' then FormatTOML
      else if hasExt filepath ''.json'' then FormatJSON
      else FormatJSON)"

definition LoadFile :: "golib \<Rightarrow> filesystem \<Rightarrow> string \<Rightarrow> perr + (string \<times> any) list" where
  "LoadFile L fs filepath =
     (case ReadFile fs filepath of
        Inl e \<Rightarrow> Inl ReadFailed
      | Inr d \<Rightarrow>
          (let format = DetectFormat filepath in
           if format = FormatJSON then
             (case json_Unmarshal L d of None \<Rightarrow> Inl (ParseFailed format) | Some r \<Rightarrow> Inr r)
           else if format = FormatYAML then
             (case yaml_Unmarshal L d of None \<Rightarrow> Inl (ParseFailed format) | Some r \<Rightarrow> Inr r)
           else if format = FormatTOML then
             (case toml_Unmarshal L d of None \<Rightarrow> Inl (ParseFailed format) | Some r \<Rightarrow> Inr r)
           else Inl (UnsupportedFormat format)))"

section \<open>Strings\<close>

fun Split1 :: "char \<Rightarrow> string \<Rightarrow> string list" where
  "Split1 sep [] = [[]]"
| "Split1 sep (c # s) =
     (if c = sep then [] # Split1 sep s
      else (case Split1 sep s of [] \<Rightarrow> [[c]] | w # ws \<Rightarrow> (c # w) # ws))"

fun Join :: "string list \<Rightarrow> string \<Rightarrow> string" where
  "Join [] sep = []"
| "Join [a] sep = a"
| "Join (a # b # bs) sep = a @ sep @ Join (b # bs) sep"

definition isDigit :: "char \<Rightarrow> bool" where
  "isDigit c = (c \<in> set ''0123456789'')"

definition digitVal :: "char \<Rightarrow> int" where
  "digitVal c = int (length (takeWhile (\<lambda>d. d \<noteq> c) ''0123456789''))"

definition digitChar :: "int \<Rightarrow> char" where
  "digitChar n = ''0123456789'' ! nat n"

definition decVal :: "string \<Rightarrow> int" where
  "decVal ds = foldl (\<lambda>n c. 10 * n + digitVal c) 0 ds"

definition maxInt :: int where
  "maxInt = 9223372036854775807"

definition Atoi :: "string \<Rightarrow> int option" where
  "Atoi ds = (if decVal ds \<le> maxInt then Some (decVal ds) else None)"

function decimal :: "int \<Rightarrow> string" where
  "decimal n = (if n < 10 then [digitChar n] else decimal (n div 10) @ [digitChar (n mod 10)])"
  by pat_completeness auto
termination
  by (relation "measure nat") auto

definition Itoa :: "int \<Rightarrow> string" where
  "Itoa i = (if i < 0 then CHR ''-'' # decimal (- i) else decimal i)"

definition arrayRegex :: "string \<Rightarrow> (string \<times> string) option" where
  "arrayRegex segment =
     (let key = takeWhile (\<lambda>c. c \<noteq> CHR ''['') segment;
          rest = dropWhile (\<lambda>c. c \<noteq> CHR ''['') segment;
          digits = butlast (tl rest)
      in if key \<noteq> [] \<and> 3 \<le> length rest \<and> last rest = CHR '']'' \<and> list_all isDigit digits
         then Some (key, digits) else None)"

definition parseKeySegment :: "string \<Rightarrow> perr + (string \<times> int)" where
  "parseKeySegment segment =
     (case arrayRegex segment of
        Some (key, digits) \<Rightarrow>
          (case Atoi digits of
             None \<Rightarrow> Inl (InvalidArrayIndex digits)
           | Some index \<Rightarrow>
               if index < 0 then Inl (NegativeArrayIndex index) else Inr (key, index))
      | None \<Rightarrow>
          if CHR ''['' \<in> set segment then Inl (InvalidArraySyntax segment)
          else Inr (segment, - 1))"

section \<open>Strings: trimming and searching (package strings)\<close>

text \<open>
  \<^verbatim>\<open>strings.TrimSpace\<close> removes the leading and the trailing white space as Unicode defines
  it. A Go string is a sequence of bytes holding UTF-8, so a white-space character is one
  of the byte sequences below: the six ASCII ones, U+0085, U+00A0, U+1680, U+2000 to
  U+200A, U+2028, U+2029, U+202F, U+205F and U+3000.
\<close>

definition spaceRunes :: "string list" where
  "spaceRunes =
     [[CHR 0x09], [CHR 0x0A], [CHR 0x0B], [CHR 0x0C], [CHR 0x0D], [CHR 0x20],
      [CHR 0xC2, CHR 0x85], [CHR 0xC2, CHR 0xA0], [CHR 0xE1, CHR 0x9A, CHR 0x80],
      [CHR 0xE2, CHR 0x80, CHR 0x80], [CHR 0xE2, CHR 0x80, CHR 0x81],
      [CHR 0xE2, CHR 0x80, CHR 0x82], [CHR 0xE2, CHR 0x80, CHR 0x83],
      [CHR 0xE2, CHR 0x80, CHR 0x84], [CHR 0xE2, CHR 0x80, CHR 0x85],
      [CHR 0xE2, CHR 0x80, CHR 0x86], [CHR 0xE2, CHR 0x80, CHR 0x87],
      [CHR 0xE2, CHR 0x80, CHR 0x88], [CHR 0xE2, CHR 0x80, CHR 0x89],
      [CHR 0xE2, CHR 0x80, CHR 0x8A], [CHR 0xE2, CHR 0x80, CHR 0xA8],
      [CHR 0xE2, CHR 0x80, CHR 0xA9], [CHR 0xE2, CHR 0x80, CHR 0xAF],
      [CHR 0xE2, CHR 0x81, CHR 0x9F], [CHR 0xE3, CHR 0x80, CHR 0x80]]"

text \<open>The number of bytes of the white-space character at the head of \<open>s\<close>, 0 when there is none.\<close>

definition spaceAtHead :: "string \<Rightarrow> nat" where
  "spaceAtHead s = (case List.find (\<lambda>r. prefix r s) spaceRunes of None \<Rightarrow> 0 | Some r \<Rightarrow> length r)"

definition spaceAtEnd :: "string \<Rightarrow> nat" where
  "spaceAtEnd s = (case List.find (\<lambda>r. suffix r s) spaceRunes of None \<Rightarrow> 0 | Some r \<Rightarrow> length r)"

function trimLeftSpace :: "string \<Rightarrow> string" where
  "trimLeftSpace s = (if spaceAtHead s = 0 \<or> s = [] then s else trimLeftSpace (drop (spaceAtHead s) s))"
  by pat_completeness auto
termination
  by (relation "measure length") auto

function trimRightSpace :: "string \<Rightarrow> string" where
  "trimRightSpace s =
     (if spaceAtEnd s = 0 \<or> s = [] then s else trimRightSpace (take (length s - spaceAtEnd s) s))"
  by pat_completeness auto
termination
  by (relation "measure length") auto

definition TrimSpace :: "string \<Rightarrow> string" where
  "TrimSpace s = trimRightSpace (trimLeftSpace s)"

text \<open>\<^verbatim>\<open>strings.TrimLeft(s, " ")\<close>, \<^verbatim>\<open>strings.Trim(s, "[]")\<close>, \<^verbatim>\<open>strings.TrimPrefix\<close>.\<close>

definition TrimLeft :: "string \<Rightarrow> string \<Rightarrow> string" where
  "TrimLeft s cutset = dropWhile (\<lambda>c. c \<in> set cutset) s"

definition Trim :: "string \<Rightarrow> string \<Rightarrow> string" where
  "Trim s cutset = rev (dropWhile (\<lambda>c. c \<in> set cutset) (rev (dropWhile (\<lambda>c. c \<in> set cutset) s)))"

definition TrimPrefix :: "string \<Rightarrow> string \<Rightarrow> string" where
  "TrimPrefix s p = (if prefix p s then drop (length p) s else s)"

text \<open>
  \<^verbatim>\<open>strings.SplitN(s, sep, 2)\<close> for a separator of one byte: the text before the first
  separator and the text after it, or \<open>s\<close> alone.
\<close>

definition SplitN2 :: "string \<Rightarrow> char \<Rightarrow> string list" where
  "SplitN2 s sep =
     (if sep \<in> set s then [takeWhile (\<lambda>c. c \<noteq> sep) s, tl (dropWhile (\<lambda>c. c \<noteq> sep) s)]
      else [s])"

text \<open>\<^verbatim>\<open>strings.Index\<close>: the first position where \<open>pat\<close> starts in \<open>s\<close>, or \<open>-1\<close>.\<close>

fun Index :: "string \<Rightarrow> string \<Rightarrow> int" where
  "Index [] pat = (if pat = [] then 0 else - 1)"
| "Index (c # s) pat =
     (if prefix pat (c # s) then 0
      else (case Index s pat of i \<Rightarrow> if i < 0 then - 1 else i + 1))"

text \<open>\<^verbatim>\<open>strings.ReplaceAll(s, "\"", "\\\"")\<close> and \<^verbatim>\<open>strings.ContainsAny\<close>.\<close>

definition escapeQuotes :: "string \<Rightarrow> string" where
  "escapeQuotes s = concat (map (\<lambda>c. if c = CHR 0x22 then [CHR 0x5C, CHR 0x22] else [c]) s)"

definition ContainsAny :: "string \<Rightarrow> string \<Rightarrow> bool" where
  "ContainsAny s chars = (\<exists>c \<in> set s. c \<in> set chars)"

section \<open>Tree navigation (parser.GetValue, parser.SetValue)\<close>

text \<open>
  \<^verbatim>\<open>convertMapInterface\<close>: a new \<^verbatim>\<open>map[string]any\<close> with the rendered keys; a nested
  \<^verbatim>\<open>map[any]any\<close> value is converted in turn, any other value is shared. Where two keys
  share a rendering, the entry visited last stays.
\<close>

fun convertValue :: "any \<Rightarrow> any" where
  "convertValue (AMapAny m) =
     AMap (fold (\<lambda>kv result. AList.update (fst kv) (convertValue (snd kv)) result) m [])"
| "convertValue v = v"

definition convertMapInterface :: "(string \<times> any) list \<Rightarrow> (string \<times> any) list" where
  "convertMapInterface m =
     fold (\<lambda>kv result. AList.update (fst kv) (convertValue (snd kv)) result) m []"

text \<open>The first type switch of the loop of \<open>GetValue\<close>: look \<open>key\<close> up in \<open>current\<close>.\<close>

definition getKey :: "any \<Rightarrow> string \<Rightarrow> string \<Rightarrow> perr + any" where
  "getKey current key sofar =
     (case current of
        AMap v \<Rightarrow>
          (case map_of v key of None \<Rightarrow> Inl (KeyNotFound sofar) | Some next \<Rightarrow> Inr next)
      | AMapAny v \<Rightarrow>
          (case map_of (convertMapInterface v) key of
             None \<Rightarrow> Inl (KeyNotFound sofar) | Some next \<Rightarrow> Inr next)
      | _ \<Rightarrow> Inl (NotAnObject sofar))"

text \<open>The second type switch: index into \<open>current\<close> when the segment carries an index.\<close>

definition getIndex :: "any \<Rightarrow> int \<Rightarrow> string \<Rightarrow> perr + any" where
  "getIndex current arrayIndex sofar =
     (if arrayIndex \<ge> 0 then
        (case current of
           ASlice arr \<Rightarrow>
             if arrayIndex \<ge> int (length arr)
             then Inl (IndexOutOfBounds arrayIndex sofar (length arr))
             else Inr (arr ! nat arrayIndex)
         | ATables arr \<Rightarrow>
             if arrayIndex \<ge> int (length arr)
             then Inl (IndexOutOfBounds arrayIndex sofar (length arr))
             else Inr (AMap (arr ! nat arrayIndex))
         | _ \<Rightarrow> Inl (NotAnArray sofar arrayIndex))
      else Inr current)"

text \<open>
  The loop of \<open>GetValue\<close> over \<^verbatim>\<open>keys[i:]\<close>; \<open>seen\<close> is \<^verbatim>\<open>keys[:i]\<close>, which the error
  messages join.
\<close>

fun GetValue_loop :: "any \<Rightarrow> string list \<Rightarrow> string list \<Rightarrow> perr + any" where
  "GetValue_loop current seen [] = Inl UnexpectedEnd"
| "GetValue_loop current seen (keySegment # rest) =
     (case parseKeySegment keySegment of
        Inl err \<Rightarrow> Inl (InvalidKeySegment keySegment err)
      | Inr (key, arrayIndex) \<Rightarrow>
          (case getKey current key (Join (seen @ [keySegment]) ''.'') of
             Inl e \<Rightarrow> Inl e
           | Inr next \<Rightarrow>
               (case getIndex next arrayIndex (Join (seen @ [keySegment]) ''.'') of
                  Inl e \<Rightarrow> Inl e
                | Inr current' \<Rightarrow>
                    if rest = [] then Inr current'
                    else GetValue_loop current' (seen @ [keySegment]) rest)))"

definition GetValue :: "(string \<times> any) list \<Rightarrow> string \<Rightarrow> perr + any" where
  "GetValue data keyPath = GetValue_loop (AMap data) [] (Split1 (CHR ''.'') keyPath)"

text \<open>
  \<open>SetValue\<close> writes into the maps and slices of the tree in place, and returns an error or
  \<^verbatim>\<open>nil\<close>. Here it returns the error together with the tree as it stands afterwards: the
  state of the object \<open>current\<close> after the walk. Where the program walks on through a copy
  (the shallow copy of an element of a table array, the conversion of a \<^verbatim>\<open>map[any]any\<close>),
  a write into the copy itself is lost and a write into a value the copy shares with the
  original is kept.
\<close>

definition lastEntry :: "string \<Rightarrow> (string \<times> any) list \<Rightarrow> any option" where
  "lastEntry key m = map_of (rev m) key"

definition replaceLast :: "string \<Rightarrow> any \<Rightarrow> (string \<times> any) list \<Rightarrow> (string \<times> any) list" where
  "replaceLast key x m = rev (AList.update key x (rev m))"

text \<open>
  The element \<open>orig\<close> of a table array after the walk along \<open>rest\<close> over its shallow copy
  ended in \<open>copy'\<close>: setting or creating a key of the copy changes nothing in \<open>orig\<close>.
\<close>

definition afterShallowCopy :: "(string \<times> any) list \<Rightarrow> string list \<Rightarrow> any \<Rightarrow> (string \<times> any) list" where
  "afterShallowCopy orig rest copy' =
     (case rest of
        [] \<Rightarrow> orig
      | s # rest' \<Rightarrow>
          (case parseKeySegment s of
             Inl e \<Rightarrow> orig
           | Inr (key, arrayIndex) \<Rightarrow>
               if (rest' = [] \<and> arrayIndex < 0) \<or> map_of orig key = None then orig
               else (case copy' of AMap c \<Rightarrow> c | _ \<Rightarrow> orig)))"

text \<open>
  The \<^verbatim>\<open>map[any]any\<close> \<open>orig\<close> after the walk along \<open>rest\<close> over its conversion ended in
  \<open>copy'\<close>: the conversion copies nested \<^verbatim>\<open>map[any]any\<close> values and shares all others.
\<close>

fun afterDeepCopy :: "(string \<times> any) list \<Rightarrow> string list \<Rightarrow> any \<Rightarrow> (string \<times> any) list" where
  "afterDeepCopy orig [] copy' = orig"
| "afterDeepCopy orig (s # rest') copy' =
     (case parseKeySegment s of
        Inl e \<Rightarrow> orig
      | Inr (key, arrayIndex) \<Rightarrow>
          if rest' = [] \<and> arrayIndex < 0 then orig
          else
            (case copy' of
               AMap c \<Rightarrow>
                 (case (lastEntry key orig, map_of c key) of
                    (Some (AMapAny sub), Some sub') \<Rightarrow>
                      replaceLast key (AMapAny (afterDeepCopy sub rest' sub')) orig
                  | (Some other, Some x) \<Rightarrow> replaceLast key x orig
                  | _ \<Rightarrow> orig)
             | _ \<Rightarrow> orig))"

text \<open>The branch of \<open>SetValue\<close> for the last key segment.\<close>

definition setLast :: "any \<Rightarrow> string \<Rightarrow> int \<Rightarrow> any \<Rightarrow> perr option \<times> any" where
  "setLast current key arrayIndex v =
     (case current of
        AMap m \<Rightarrow>
          if arrayIndex \<ge> 0 then
            (case map_of m key of
               None \<Rightarrow> (Some (ArrayKeyNotFound key), current)
             | Some arr \<Rightarrow>
                 (case arr of
                    ASlice a \<Rightarrow>
                      if arrayIndex \<ge> int (length a)
                      then (Some (IndexOutOfBounds arrayIndex key (length a)), current)
                      else (None, AMap (AList.update key (ASlice (a[nat arrayIndex := v])) m))
                  | ATables a \<Rightarrow>
                      if arrayIndex \<ge> int (length a)
                      then (Some (IndexOutOfBounds arrayIndex key (length a)), current)
                      else (Some (CannotSetPrimitive key arrayIndex), current)
                  | _ \<Rightarrow> (Some (NotAnArray key arrayIndex), current)))
          else (None, AMap (AList.update key v m))
      | _ \<Rightarrow> (Some CannotSetNonObject, current))"

fun SetValue_loop :: "any \<Rightarrow> string list \<Rightarrow> string list \<Rightarrow> any \<Rightarrow> perr option \<times> any" where
  "SetValue_loop current seen [] v = (None, current)"
| "SetValue_loop current seen (keySegment # rest) v =
     (case parseKeySegment keySegment of
        Inl err \<Rightarrow> (Some (InvalidKeySegment keySegment err), current)
      | Inr (key, arrayIndex) \<Rightarrow>
          if rest = [] then setLast current key arrayIndex v
          else
            (case current of
               AMap m \<Rightarrow>
                 (case map_of m key of
                    None \<Rightarrow>
                      if arrayIndex \<ge> 0 then (Some (ArrayKeyNotFound key), current)
                      else
                        (case SetValue_loop (AMap []) (seen @ [keySegment]) rest v of
                           (e, next') \<Rightarrow> (e, AMap (AList.update key next' m)))
                  | Some next \<Rightarrow>
                      if arrayIndex \<ge> 0 then
                        (case next of
                           ASlice arr \<Rightarrow>
                             if arrayIndex \<ge> int (length arr)
                             then (Some (IndexOutOfBounds arrayIndex key (length arr)), current)
                             else
                               (case SetValue_loop (arr ! nat arrayIndex) (seen @ [keySegment]) rest v of
                                  (e, x') \<Rightarrow>
                                    (e, AMap (AList.update key (ASlice (arr[nat arrayIndex := x'])) m)))
                         | ATables arr \<Rightarrow>
                             if arrayIndex \<ge> int (length arr)
                             then (Some (IndexOutOfBounds arrayIndex key (length arr)), current)
                             else
                               (case SetValue_loop (AMap (arr ! nat arrayIndex)) (seen @ [keySegment]) rest v of
                                  (e, x') \<Rightarrow>
                                    (e, AMap (AList.update key
                                          (ATables (arr[nat arrayIndex :=
                                             afterShallowCopy (arr ! nat arrayIndex) rest x'])) m)))
                         | _ \<Rightarrow> (Some (NotAnArray key arrayIndex), current))
                      else
                        (case SetValue_loop next (seen @ [keySegment]) rest v of
                           (e, next') \<Rightarrow> (e, AMap (AList.update key next' m))))
             | AMapAny m \<Rightarrow>
                 (case map_of (convertMapInterface m) key of
                    None \<Rightarrow>
                      if arrayIndex \<ge> 0 then (Some (ArrayKeyNotFound key), current)
                      else
                        (case SetValue_loop (AMap []) (seen @ [keySegment]) rest v of
                           (e, next') \<Rightarrow> (e, current))
                  | Some next \<Rightarrow>
                      if arrayIndex \<ge> 0 then
                        (case next of
                           ASlice arr \<Rightarrow>
                             if arrayIndex \<ge> int (length arr)
                             then (Some (IndexOutOfBounds arrayIndex key (length arr)), current)
                             else
                               (case SetValue_loop (arr ! nat arrayIndex) (seen @ [keySegment]) rest v of
                                  (e, x') \<Rightarrow>
                                    (e, AMapAny (replaceLast key (ASlice (arr[nat arrayIndex := x'])) m)))
                         | ATables arr \<Rightarrow>
                             if arrayIndex \<ge> int (length arr)
                             then (Some (IndexOutOfBounds arrayIndex key (length arr)), current)
                             else
                               (case SetValue_loop (AMap (arr ! nat arrayIndex)) (seen @ [keySegment]) rest v of
                                  (e, x') \<Rightarrow>
                                    (e, AMapAny (replaceLast key
                                          (ATables (arr[nat arrayIndex :=
                                             (case x' of AMap c \<Rightarrow> c | _ \<Rightarrow> arr ! nat arrayIndex)])) m)))
                         | _ \<Rightarrow> (Some (NotAnArray key arrayIndex), current))
                      else
                        (case SetValue_loop next (seen @ [keySegment]) rest v of
                           (e, next') \<Rightarrow>
                             (e, AMapAny
                                (case lastEntry key m of
                                   Some (AMapAny sub) \<Rightarrow>
                                     replaceLast key (AMapAny (afterDeepCopy sub rest next')) m
                                 | _ \<Rightarrow> replaceLast key next' m))))
             | _ \<Rightarrow> (Some (ConflictsNonObject (Join (seen @ [keySegment]) ''.'')), current)))"

definition SetValue :: "(string \<times> any) list \<Rightarrow> string \<Rightarrow> any \<Rightarrow> perr option \<times> (string \<times> any) list" where
  "SetValue data keyPath v =
     (case SetValue_loop (AMap data) [] (Split1 (CHR ''.'') keyPath) v of
        (e, AMap data') \<Rightarrow> (e, data')
      | (e, _) \<Rightarrow> (e, data))"

text \<open>\<open>normalizeTOMLKeyPath\<close>: the body of its loop, then the function.\<close>

definition normalizePart :: "string \<Rightarrow> string" where
  "normalizePart part =
     (if CHR ''['' \<in> set part then
        (case parseKeySegment part of
           Inr (key, index) \<Rightarrow>
             if index \<ge> 0 then key @ ''['' @ Itoa index @ '']'' else part
         | Inl err \<Rightarrow> part)
      else part)"

definition normalizeTOMLKeyPath :: "string \<Rightarrow> string" where
  "normalizeTOMLKeyPath keyPath = Join (map normalizePart (Split1 (CHR ''.'') keyPath)) ''.''"



section \<open>The surgical rewriter (parser.UpdateFileValues)\<close>

text \<open>
  Go visits the entries of a map in an order it chooses at each \<^verbatim>\<open>range\<close> loop. The line
  contexts are a map from line numbers; \<open>mapOrder\<close> gives, for the key path being looked up,
  the order in which the loop of the find function visits the line numbers. The updates,
  a map too, are given as the list of their entries in the order the update loop visits
  them (no key path twice).
\<close>

type_synonym mapOrder = "string \<Rightarrow> nat list \<Rightarrow> nat list"


definition isBlank :: "char \<Rightarrow> bool" where
  "isBlank c = (c = CHR 0x20 \<or> c = CHR 0x09)"

text \<open>
  The loop that finds where the value ends, from \<^verbatim>\<open>valueStart\<close> on: \<open>prev\<close> is the byte
  before the current one (none at \<^verbatim>\<open>valueStart\<close>), the result is the number of bytes passed.
\<close>

fun scanValue :: "bool \<Rightarrow> char option \<Rightarrow> string \<Rightarrow> nat" where
  "scanValue inQuotes prev [] = 0"
| "scanValue inQuotes prev (c # cs) =
     (if c = CHR 0x22 \<and> (prev = None \<or> prev \<noteq> Some (CHR 0x5C))
      then Suc (scanValue (\<not> inQuotes) (Some c) cs)
      else if \<not> inQuotes \<and> (c = CHR ''#'' \<or> c = CHR 0x0A) then 0
      else Suc (scanValue inQuotes (Some c) cs))"

text \<open>
  The body of the update loops of \<open>updateYAMLValues\<close> and \<open>updateTOMLValues\<close> (the same
  text in both, but for the key pattern): the line with the value after the first
  \<open>keyPattern\<close> replaced by \<open>valueStr\<close>, or the line as it is when the pattern does not occur.
\<close>

definition replaceValue :: "string \<Rightarrow> string \<Rightarrow> string \<Rightarrow> string" where
  "replaceValue originalLine keyPattern valueStr =
     (let keyIndex = Index originalLine keyPattern in
      if keyIndex \<ge> 0 then
        (let afterKey = nat keyIndex + length keyPattern;
             valueStart = afterKey + length (takeWhile isBlank (drop afterKey originalLine));
             scanned = take (scanValue False None (drop valueStart originalLine))
                         (drop valueStart originalLine);
             valueEnd = valueStart + length (rev (dropWhile isBlank (rev scanned)))
         in take valueStart originalLine @ valueStr @ drop valueEnd originalLine)
      else originalLine)"

text \<open>
  One round of the update loops, with the state \<^verbatim>\<open>lines\<close>, \<^verbatim>\<open>updatedLines\<close> and
  \<^verbatim>\<open>updatedCount\<close>: \<open>findLine\<close> is the find function on the contexts of the file,
  \<open>keyPatternOf\<close> gives the key pattern of the context of a line, \<open>format\<close> renders the value.
\<close>

definition updateLine ::
  "(string \<Rightarrow> int) \<Rightarrow> (nat \<Rightarrow> string) \<Rightarrow> (any \<Rightarrow> string) \<Rightarrow>
   string list \<times> nat list \<times> nat \<Rightarrow> string \<times> any \<Rightarrow> string list \<times> nat list \<times> nat" where
  "updateLine findLine keyPatternOf format state upd =
     (case state of (lines, updatedLines, updatedCount) \<Rightarrow>
      case upd of (keyPath, newValue) \<Rightarrow>
      let lineNum = findLine keyPath in
      if lineNum \<ge> 0 \<and> nat lineNum \<notin> set updatedLines then
        (lines[nat lineNum :=
           replaceValue (lines ! nat lineNum) (keyPatternOf (nat lineNum)) (format newValue)],
         nat lineNum # updatedLines, updatedCount + 1)
      else state)"

text \<open>
  What follows the update loop: the error when no line was updated, else the write of
  the joined lines.
\<close>

definition writeBack ::
  "filesystem \<Rightarrow> string \<Rightarrow> string list \<times> nat list \<times> nat \<Rightarrow> perr option \<times> filesystem" where
  "writeBack fs filepath state =
     (case state of (lines, updatedLines, updatedCount) \<Rightarrow>
      if updatedCount = 0 then (Some NoKeyPathsFound, fs)
      else (case WriteFile fs filepath (Join lines [CHR 0x0A]) of
              Inl e \<Rightarrow> (Some e, fs)
            | Inr fs' \<Rightarrow> (None, fs')))"

subsection \<open>YAML\<close>

text \<open>The fields of \<^verbatim>\<open>yamlLineContext\<close>, each with the prefix \<open>y\<close>.\<close>

record yamlLineContext =
  ylineNumber :: nat
  yindentLevel :: int
  ykey :: string
  yisArrayItem :: bool
  yarrayIndex :: int
  yparentPath :: string
  yfullPath :: string

text \<open>\<^verbatim>\<open>for level := from; level >= 0; level -= 2\<close>: the path of the closest level that has one.\<close>

function closestParent :: "(int \<times> string) list \<Rightarrow> int \<Rightarrow> string" where
  "closestParent currentPaths level =
     (if level < 0 then []
      else (case map_of currentPaths level of
              Some path \<Rightarrow> path
            | None \<Rightarrow> closestParent currentPaths (level - 2)))"
  by pat_completeness auto
termination
  by (relation "measure (\<lambda>(p, level). nat (level + 2))") auto

text \<open>
  One round of the loop of \<open>parseYAMLStructure\<close>, on line \<open>i\<close>; the state is the contexts
  (in the order of the lines), \<^verbatim>\<open>currentPaths\<close> and \<^verbatim>\<open>arrayIndices\<close>. The two
  blocks of the loop body come first: the array item, then the key-value pair.
\<close>

type_synonym yamlState =
  "(nat \<times> yamlLineContext) list \<times> (int \<times> string) list \<times> (string \<times> int) list"

definition yamlArrayItem :: "yamlState \<Rightarrow> nat \<Rightarrow> int \<Rightarrow> string \<Rightarrow> yamlState" where
  "yamlArrayItem state i indent trimmed =
     (case state of (contexts, currentPaths, arrayIndices) \<Rightarrow>
      let arrayContent = TrimPrefix trimmed ''- '';
          parent = (case map_of currentPaths (indent - 2) of
                      Some path \<Rightarrow> path
                    | None \<Rightarrow> closestParent currentPaths (indent - 2));
          arrayIndices1 = (case map_of arrayIndices parent of
                             None \<Rightarrow> AList.update parent (- 1) arrayIndices
                           | Some n \<Rightarrow> arrayIndices);
          currentArrayIndex = (case map_of arrayIndices1 parent of
                                 Some n \<Rightarrow> n + 1 | None \<Rightarrow> 0);
          arrayIndices2 = AList.update parent currentArrayIndex arrayIndices1
      in
      if CHR '':'' \<in> set arrayContent then
        (let k = TrimSpace (hd (SplitN2 arrayContent (CHR '':'')));
             full = (if parent \<noteq> []
                     then parent @ ''['' @ Itoa currentArrayIndex @ ''].'' @ k
                     else ''['' @ Itoa currentArrayIndex @ ''].'' @ k);
             arrayItemPath = (if parent = []
                              then ''['' @ Itoa currentArrayIndex @ '']''
                              else parent @ ''['' @ Itoa currentArrayIndex @ '']'')
         in (contexts @
               [(i, \<lparr>ylineNumber = i, yindentLevel = indent, ykey = k, yisArrayItem = True,
                     yarrayIndex = currentArrayIndex, yparentPath = parent,
                     yfullPath = full\<rparr>)],
             AList.update (indent + 2) arrayItemPath currentPaths,
             arrayIndices2))
      else (contexts, currentPaths, arrayIndices2))"

definition yamlKeyValue :: "yamlState \<Rightarrow> nat \<Rightarrow> int \<Rightarrow> string \<Rightarrow> yamlState" where
  "yamlKeyValue state i indent trimmed =
     (case state of (contexts, currentPaths, arrayIndices) \<Rightarrow>
      let parts = SplitN2 trimmed (CHR '':'');
          k = TrimSpace (hd parts);
          v = TrimSpace (hd (tl parts));
          parent = (if indent = 0 then []
                    else (case map_of currentPaths indent of
                            Some path \<Rightarrow> path
                          | None \<Rightarrow> closestParent currentPaths (indent - 2)));
          full = (if parent \<noteq> [] then parent @ ''.'' @ k else k)
      in
      if v \<noteq> [] then
        (contexts @
           [(i, \<lparr>ylineNumber = i, yindentLevel = indent, ykey = k, yisArrayItem = False,
                 yarrayIndex = - 1, yparentPath = parent, yfullPath = full\<rparr>)],
         currentPaths, arrayIndices)
      else (contexts, AList.update indent full currentPaths,
            AList.update full (- 1) arrayIndices))"

definition parseYAMLLine :: "yamlState \<Rightarrow> nat \<times> string \<Rightarrow> yamlState" where
  "parseYAMLLine state il =
     (case state of (contexts, currentPaths0, arrayIndices) \<Rightarrow>
      case il of (i, line) \<Rightarrow>
      let trimmed = TrimSpace line in
      if trimmed = [] \<or> prefix ''#'' trimmed then state
      else
        let indent = int (length line) - int (length (TrimLeft line '' ''));
            currentPaths = filter (\<lambda>lp. \<not> fst lp > indent) currentPaths0
        in
        if prefix ''- '' trimmed then
          yamlArrayItem (contexts, currentPaths, arrayIndices) i indent trimmed
        else if CHR '':'' \<in> set trimmed then
          yamlKeyValue (contexts, currentPaths, arrayIndices) i indent trimmed
        else (contexts, currentPaths, arrayIndices))"

definition parseYAMLStructure :: "string list \<Rightarrow> (nat \<times> yamlLineContext) list" where
  "parseYAMLStructure lines = fst (foldl parseYAMLLine ([], [], []) (enumerate 0 lines))"

definition normalizeYAMLKeyPath :: "string \<Rightarrow> string" where
  "normalizeYAMLKeyPath keyPath = keyPath"

definition findYAMLLineForKeyPath ::
  "mapOrder \<Rightarrow> (nat \<times> yamlLineContext) list \<Rightarrow> string \<Rightarrow> int" where
  "findYAMLLineForKeyPath order contexts keyPath =
     (let normalizedKeyPath = normalizeYAMLKeyPath keyPath in
      case List.find
             (\<lambda>n. case map_of contexts n of
                     Some context \<Rightarrow> yfullPath context = normalizedKeyPath
                   | None \<Rightarrow> False)
             (order keyPath (map fst contexts)) of
        Some lineNum \<Rightarrow> int lineNum
      | None \<Rightarrow> - 1)"

definition formatYAMLValue :: "golib \<Rightarrow> any \<Rightarrow> string" where
  "formatYAMLValue L v =
     (case v of
        AStr s \<Rightarrow>
          if ContainsAny s ('' :{}[]'' @ [CHR 0x22]) \<or> s = []
          then [CHR 0x22] @ escapeQuotes s @ [CHR 0x22]
          else s
      | ABool b \<Rightarrow> (if b then ''true'' else ''false'')
      | AInt i \<Rightarrow> Itoa i
      | _ \<Rightarrow> fmt_v L v)"

text \<open>
  \<^verbatim>\<open>contexts[lineNum].key + ":"\<close>; a line number that is no key of the map gives the zero
  context, whose key is empty.
\<close>

definition yamlKeyPattern :: "(nat \<times> yamlLineContext) list \<Rightarrow> nat \<Rightarrow> string" where
  "yamlKeyPattern contexts lineNum =
     (case map_of contexts lineNum of Some context \<Rightarrow> ykey context @ '':'' | None \<Rightarrow> '':'')"

definition updateYAMLValues ::
  "golib \<Rightarrow> mapOrder \<Rightarrow> filesystem \<Rightarrow> string \<Rightarrow> (string \<times> any) list \<Rightarrow>
   perr option \<times> filesystem" where
  "updateYAMLValues L order fs filepath updates =
     (case ReadFile fs filepath of
        Inl e \<Rightarrow> (Some ReadFailed, fs)
      | Inr content \<Rightarrow>
          (let lines = Split1 (CHR 0x0A) content;
               contexts = parseYAMLStructure lines
           in writeBack fs filepath
                (foldl (updateLine (findYAMLLineForKeyPath order contexts)
                          (yamlKeyPattern contexts) (formatYAMLValue L))
                   (lines, [], 0) updates)))"

subsection \<open>TOML\<close>

text \<open>The fields of \<^verbatim>\<open>tomlLineContext\<close>, each with the prefix \<open>t\<close>.\<close>

record tomlLineContext =
  tlineNumber :: nat
  tkey :: string
  tsection :: string
  tisTableArray :: bool
  tarrayIndex :: int
  tfullPath :: string

text \<open>
  The state of the loop of \<open>parseTOMLStructure\<close>: the contexts (in the order of the lines),
  \<^verbatim>\<open>currentSection\<close>, \<^verbatim>\<open>currentTableArray\<close>, \<^verbatim>\<open>arrayIndex\<close> and \<^verbatim>\<open>lastSectionLine\<close>.
\<close>

record tomlState =
  contexts :: "(nat \<times> tomlLineContext) list"
  currentSection :: string
  currentTableArray :: string
  arrayIndexT :: int
  lastSectionLine :: int

text \<open>
  \<^verbatim>\<open>for j := lastSectionLine + 1; j < i; j++\<close>: is one of these lines empty once trimmed?
\<close>

definition hasGap :: "string list \<Rightarrow> int \<Rightarrow> nat \<Rightarrow> bool" where
  "hasGap lines lastSection i =
     list_ex (\<lambda>l. TrimSpace l = []) (take (i - nat (lastSection + 1)) (drop (nat (lastSection + 1)) lines))"

definition parseTOMLLine :: "string list \<Rightarrow> tomlState \<Rightarrow> nat \<times> string \<Rightarrow> tomlState" where
  "parseTOMLLine lines st il =
     (case il of (i, line) \<Rightarrow>
      let trimmed = TrimSpace line in
      if trimmed = [] \<or> prefix ''#'' trimmed then st
      else if prefix ''[['' trimmed \<and> suffix '']]'' trimmed then
        (let tableName = Trim trimmed ''[]'';
             idx = (if tableName = currentTableArray st then arrayIndexT st + 1 else 0)
         in st\<lparr>currentSection := tableName @ ''['' @ Itoa idx @ '']'',
                currentTableArray := tableName, arrayIndexT := idx, lastSectionLine := int i\<rparr>)
      else if prefix ''['' trimmed \<and> suffix '']'' trimmed then
        st\<lparr>currentSection := Trim trimmed ''[]'', currentTableArray := [],
            arrayIndexT := - 1, lastSectionLine := int i\<rparr>
      else if CHR ''='' \<in> set trimmed \<and> \<not> prefix ''#'' trimmed then
        (let k = TrimSpace (hd (SplitN2 trimmed (CHR ''='')));
             isTopLevel =
               (if \<not> prefix '' '' line \<and> \<not> prefix [CHR 0x09] line then
                  (if lastSectionLine st \<ge> 0 then hasGap lines (lastSectionLine st) i else True)
                else False);
             full = (if isTopLevel then k
                     else if currentSection st \<noteq> [] then currentSection st @ ''.'' @ k
                     else k);
             effectiveSection = (if isTopLevel then []
                                 else if currentSection st \<noteq> [] then currentSection st
                                 else [])
         in st\<lparr>contexts := contexts st @
               [(i, \<lparr>tlineNumber = i, tkey = k, tsection = effectiveSection,
                     tisTableArray = (currentTableArray st \<noteq> [] \<and> arrayIndexT st \<ge> 0 \<and> \<not> isTopLevel),
                     tarrayIndex = arrayIndexT st, tfullPath = full\<rparr>)]\<rparr>)
      else st)"

definition parseTOMLStructure :: "string list \<Rightarrow> (nat \<times> tomlLineContext) list" where
  "parseTOMLStructure lines =
     contexts (foldl (parseTOMLLine lines)
       \<lparr>contexts = [], currentSection = [], currentTableArray = [], arrayIndexT = - 1,
        lastSectionLine = - 1\<rparr>
       (enumerate 0 lines))"

definition findTOMLLineForKeyPath ::
  "mapOrder \<Rightarrow> (nat \<times> tomlLineContext) list \<Rightarrow> string \<Rightarrow> int" where
  "findTOMLLineForKeyPath order ctxs keyPath =
     (let normalizedKeyPath = normalizeTOMLKeyPath keyPath in
      case List.find
             (\<lambda>n. case map_of ctxs n of
                     Some context \<Rightarrow> tfullPath context = normalizedKeyPath
                   | None \<Rightarrow> False)
             (order keyPath (map fst ctxs)) of
        Some lineNum \<Rightarrow> int lineNum
      | None \<Rightarrow> - 1)"

definition formatTOMLValue :: "golib \<Rightarrow> any \<Rightarrow> string" where
  "formatTOMLValue L v =
     (case v of
        AStr s \<Rightarrow> [CHR 0x22] @ escapeQuotes s @ [CHR 0x22]
      | ABool b \<Rightarrow> (if b then ''true'' else ''false'')
      | AInt i \<Rightarrow> Itoa i
      | AFloat f \<Rightarrow> fmt_v L v
      | _ \<Rightarrow> [CHR 0x22] @ escapeQuotes (fmt_v L v) @ [CHR 0x22])"

definition tomlKeyPattern :: "(nat \<times> tomlLineContext) list \<Rightarrow> nat \<Rightarrow> string" where
  "tomlKeyPattern ctxs lineNum =
     (case map_of ctxs lineNum of Some context \<Rightarrow> tkey context @ '' ='' | None \<Rightarrow> '' ='')"

definition updateTOMLValues ::
  "golib \<Rightarrow> mapOrder \<Rightarrow> filesystem \<Rightarrow> string \<Rightarrow> (string \<times> any) list \<Rightarrow>
   perr option \<times> filesystem" where
  "updateTOMLValues L order fs filepath updates =
     (case ReadFile fs filepath of
        Inl e \<Rightarrow> (Some ReadFailed, fs)
      | Inr content \<Rightarrow>
          (let lines = Split1 (CHR 0x0A) content;
               ctxs = parseTOMLStructure lines
           in writeBack fs filepath
                (foldl (updateLine (findTOMLLineForKeyPath order ctxs)
                          (tomlKeyPattern ctxs) (formatTOMLValue L))
                   (lines, [], 0) updates)))"

subsection \<open>JSON, and the dispatch on the format\<close>

definition SaveFile :: "golib \<Rightarrow> filesystem \<Rightarrow> string \<Rightarrow> (string \<times> any) list \<Rightarrow> perr option \<times> filesystem" where
  "SaveFile L fs filepath data =
     (let format = DetectFormat filepath;
          encoded = (if format = FormatJSON then Inr (json_MarshalIndent L data)
                     else if format = FormatYAML then Inr (yaml_Marshal L data)
                     else if format = FormatTOML then Inr (toml_Encode L data)
                     else Inl (UnsupportedFormat format))
      in case encoded of
           Inl e \<Rightarrow> (Some e, fs)
         | Inr None \<Rightarrow> (Some (MarshalFailed format), fs)
         | Inr (Some output) \<Rightarrow>
             (case WriteFile fs filepath output of
                Inl e \<Rightarrow> (Some e, fs)
              | Inr fs' \<Rightarrow> (None, fs')))"

text \<open>The loop of \<open>updateJSONValues\<close>: the first error of \<open>SetValue\<close> ends it.\<close>

fun setAll :: "(string \<times> any) list \<Rightarrow> (string \<times> any) list \<Rightarrow> perr + (string \<times> any) list" where
  "setAll data [] = Inr data"
| "setAll data ((keyPath, newValue) # updates) =
     (case SetValue data keyPath newValue of
        (Some err, data') \<Rightarrow> Inl err
      | (None, data') \<Rightarrow> setAll data' updates)"

definition updateJSONValues ::
  "golib \<Rightarrow> filesystem \<Rightarrow> string \<Rightarrow> (string \<times> any) list \<Rightarrow> perr option \<times> filesystem" where
  "updateJSONValues L fs filepath updates =
     (case LoadFile L fs filepath of
        Inl err \<Rightarrow> (Some err, fs)
      | Inr data \<Rightarrow>
          (case setAll data updates of
             Inl err \<Rightarrow> (Some err, fs)
           | Inr data' \<Rightarrow> SaveFile L fs filepath data'))"

definition UpdateFileValues ::
  "golib \<Rightarrow> mapOrder \<Rightarrow> filesystem \<Rightarrow> string \<Rightarrow> (string \<times> any) list \<Rightarrow>
   perr option \<times> filesystem" where
  "UpdateFileValues L order fs filepath updates =
     (let format = DetectFormat filepath in
      if format = FormatYAML then updateYAMLValues L order fs filepath updates
      else if format = FormatTOML then updateTOMLValues L order fs filepath updates
      else if format = FormatJSON then updateJSONValues L fs filepath updates
      else (Some (UnsupportedTargeted format), fs))"

subsection \<open>What a surgical replacement is\<close>








subsection \<open>The line contexts of a TOML file, as the specification words them\<close>













section \<open>The watcher (watcher.FileWatcher)\<close>

subsection \<open>One batch for one target file\<close>

text \<open>
  \<^verbatim>\<open>models.SyncRule\<close> and \<^verbatim>\<open>models.SyncEvent\<close>, without their time stamps and the
  name and description of a rule, which nothing below reads. The error text of an event is
  kept as the error it is made from.
\<close>

record SyncRule =
  ID :: string
  SourceFile :: string
  SourceKey :: string
  TargetFile :: string
  TargetKey :: string
  Enabled :: bool

datatype eventError = NoError | GetSourceFailed perr | UpdateTargetFailed perr

record SyncEvent =
  RuleID :: string
  OldValue :: any
  NewValue :: any
  Success :: bool
  Error :: eventError

text \<open>
  \<open>processRuleForBatch\<close>: the event of the rule, and the \<^verbatim>\<open>updates\<close> map with the
  entry of the rule put in when the source value is found.
\<close>

definition processRuleForBatch ::
  "golib \<Rightarrow> filesystem \<Rightarrow> (string \<times> any) list \<Rightarrow> SyncRule \<Rightarrow> (string \<times> any) list \<Rightarrow>
   SyncEvent \<times> (string \<times> any) list" where
  "processRuleForBatch L fs sourceData rule updates =
     (case GetValue sourceData (SourceKey rule) of
        Inl err \<Rightarrow>
          (\<lparr>RuleID = ID rule, OldValue = ANil, NewValue = ANil, Success = False,
            Error = GetSourceFailed err\<rparr>, updates)
      | Inr newValue \<Rightarrow>
          (let oldValue =
                 (case LoadFile L fs (TargetFile rule) of
                    Inr targetData \<Rightarrow>
                      (case GetValue targetData (TargetKey rule) of
                         Inr v \<Rightarrow> v
                       | Inl e \<Rightarrow> ANil)
                  | Inl e \<Rightarrow> ANil)
           in (\<lparr>RuleID = ID rule, OldValue = oldValue, NewValue = newValue, Success = True,
                Error = NoError\<rparr>,
               AList.update (TargetKey rule) newValue updates)))"

text \<open>
  \<open>sendEvent\<close> on the event channel, which holds 100 events: the event is dropped when
  the channel is full. The channel is the list of the events sent and not yet received.
\<close>

definition sendEvent :: "SyncEvent list \<Rightarrow> SyncEvent \<Rightarrow> SyncEvent list" where
  "sendEvent eventChan event =
     (if length eventChan < 100 then eventChan @ [event] else eventChan)"

text \<open>The first loop of \<open>processTargetGroup\<close>: the events and the updates of the rules.\<close>

definition collectUpdates ::
  "golib \<Rightarrow> filesystem \<Rightarrow> (string \<times> any) list \<Rightarrow> SyncRule list \<Rightarrow>
   SyncEvent list \<times> (string \<times> any) list" where
  "collectUpdates L fs sourceData rs =
     foldl (\<lambda>(events, updates) rule.
              case processRuleForBatch L fs sourceData rule updates of
                (event, updates') \<Rightarrow> (events @ [event], updates'))
       ([], []) rs"

text \<open>
  \<open>processTargetGroup\<close>, on the files and the event channel. \<open>rangeOrder\<close> gives the order in
  which the rewriter visits the entries of the \<^verbatim>\<open>updates\<close> map, a choice of Go at run time.
\<close>

definition processTargetGroup ::
  "golib \<Rightarrow> mapOrder \<Rightarrow> ((string \<times> any) list \<Rightarrow> (string \<times> any) list) \<Rightarrow>
   filesystem \<times> SyncEvent list \<Rightarrow> (string \<times> any) list \<Rightarrow> string \<Rightarrow> SyncRule list \<Rightarrow>
   filesystem \<times> SyncEvent list" where
  "processTargetGroup L order rangeOrder state sourceData targetFile rs =
     (case state of (fs, eventChan) \<Rightarrow>
      case collectUpdates L fs sourceData rs of (events, updates) \<Rightarrow>
      let allSuccessful = list_all Success events in
      case (if allSuccessful \<and> length updates > 0 then
              (case UpdateFileValues L order fs targetFile (rangeOrder updates) of
                 (Some err, fs') \<Rightarrow>
                   (map (\<lambda>e. e\<lparr>Success := False, Error := UpdateTargetFailed err\<rparr>) events, fs')
               | (None, fs') \<Rightarrow> (events, fs'))
            else (events, fs)) of
        (events', fs') \<Rightarrow> (fs', foldl sendEvent eventChan events'))"

subsection \<open>Debounce and batch timer\<close>

text \<open>
  Time is in milliseconds. The fields of \<^verbatim>\<open>FileWatcher\<close> that \<open>handleFileChange\<close> and
  \<open>batchRules\<close> read and write: the rules, the time of the last recorded event of each
  file name, and the pending batches, each with its rules and the time at which its timer
  fires.
\<close>

definition debounce :: int where
  "debounce = 500"

definition batchDelay :: int where
  "batchDelay = 200"

record FileWatcher =
  rules :: "SyncRule list"
  lastEvents :: "(string \<times> int) list"
  batches :: "(string \<times> SyncRule list \<times> int) list"

text \<open>
  \<open>batchRules\<close>: the batch of the source file gets the rules, its timer is stopped and a
  new one is set to fire after the batch delay.
\<close>

definition batchRules :: "FileWatcher \<Rightarrow> int \<Rightarrow> string \<Rightarrow> SyncRule list \<Rightarrow> FileWatcher" where
  "batchRules fw now sourceFile matchingRules =
     fw\<lparr>batches := AList.update sourceFile (matchingRules, now + batchDelay) (batches fw)\<rparr>"

text \<open>
  \<open>handleFileChange\<close> at the time \<open>now\<close>; \<open>Abs\<close> is \<^verbatim>\<open>filepath.Abs\<close>, with \<open>None\<close> for its
  error.
\<close>

definition handleFileChange ::
  "(string \<Rightarrow> string option) \<Rightarrow> FileWatcher \<Rightarrow> int \<Rightarrow> string \<Rightarrow> FileWatcher" where
  "handleFileChange Abs fw now filename =
     (if (case map_of (lastEvents fw) filename of
            Some lastEvent \<Rightarrow> now - lastEvent < debounce
          | None \<Rightarrow> False)
      then fw
      else
        (let fw1 = fw\<lparr>lastEvents := AList.update filename now (lastEvents fw)\<rparr> in
         case Abs filename of
           None \<Rightarrow> fw1
         | Some absPath \<Rightarrow>
             (let matchingRules =
                    filter (\<lambda>rule. Enabled rule \<and> Abs (SourceFile rule) = Some absPath) (rules fw1)
              in if length matchingRules > 0 then batchRules fw1 now absPath matchingRules
                 else fw1)))"

text \<open>
  The timers that are due fire: each hands its source file to \<open>processBatch\<close>, which takes
  the batch off the map. A flush is recorded with the time of the timer, the source file
  and the rules of the batch; no time passes between the timer and \<open>processBatch\<close>.
\<close>

type_synonym flush = "int \<times> string \<times> SyncRule list"

definition fireTimers ::
  "(int \<Rightarrow> bool) \<Rightarrow> FileWatcher \<times> flush list \<Rightarrow> FileWatcher \<times> flush list" where
  "fireTimers due state =
     (case state of (fw, flushed) \<Rightarrow>
      (fw\<lparr>batches := filter (\<lambda>b. \<not> due (snd (snd b))) (batches fw)\<rparr>,
       flushed @ sort_key fst
         (map (\<lambda>b. (snd (snd b), fst b, fst (snd b)))
            (filter (\<lambda>b. due (snd (snd b))) (batches fw)))))"

text \<open>
  A file event at time \<open>t\<close>: the timers set to an earlier time have fired, and those set
  to \<open>t\<close> itself have fired or not, as \<open>timerFirst\<close> says; then the event is handled.
\<close>

definition observe ::
  "bool \<Rightarrow> (string \<Rightarrow> string option) \<Rightarrow> FileWatcher \<times> flush list \<Rightarrow> int \<times> string \<Rightarrow>
   FileWatcher \<times> flush list" where
  "observe timerFirst Abs state ev =
     (case ev of (t, filename) \<Rightarrow>
      case fireTimers (\<lambda>d. d < t \<or> timerFirst \<and> d = t) state of
        (fw, flushed) \<Rightarrow> (handleFileChange Abs fw t filename, flushed))"

text \<open>The flushes of a run: those between the events, then those of the timers left.\<close>

definition runEvents ::
  "bool \<Rightarrow> (string \<Rightarrow> string option) \<Rightarrow> FileWatcher \<Rightarrow> (int \<times> string) list \<Rightarrow> flush list" where
  "runEvents timerFirst Abs fw events =
     snd (fireTimers (\<lambda>d. True) (foldl (observe timerFirst Abs) (fw, []) events))"

section \<open>Key paths: lemmas\<close>

lemma Split1_not_Nil: "Split1 c s \<noteq> []"
  by (induction s) (auto split: list.splits)

lemma Join_Cons_Cons: "Join ((x # w) # ws) sep = x # Join (w # ws) sep"
  by (cases ws) simp_all

lemma Join_Nil_Cons: "ws \<noteq> [] \<Longrightarrow> Join ([] # ws) sep = sep @ Join ws sep"
  by (cases ws) simp_all

lemma Join_Split1: "Join (Split1 c s) [c] = s"
proof (induction s)
  case Nil
  show ?case by simp
next
  case (Cons x xs)
  show ?case
  proof (cases "x = c")
    case True
    then show ?thesis
      using Cons by (simp add: Join_Nil_Cons Split1_not_Nil)
  next
    case False
    obtain w ws where s: "Split1 c xs = w # ws"
      using Split1_not_Nil by (cases "Split1 c xs") auto
    show ?thesis
      using False Cons s by (simp add: Join_Cons_Cons)
  qed
qed

lemma arrayRegex_SomeD:
  assumes "arrayRegex seg = Some (key, digits)"
  shows "seg = key @ ''['' @ digits @ '']''" and "key \<noteq> []" and "CHR ''['' \<notin> set key"
    and "digits \<noteq> []" and "list_all isDigit digits"
proof -
  define rest where "rest = dropWhile (\<lambda>c. c \<noteq> CHR ''['') seg"
  have c: "takeWhile (\<lambda>c. c \<noteq> CHR ''['') seg \<noteq> [] \<and> 3 \<le> length rest \<and>
      last rest = CHR '']'' \<and> list_all isDigit (butlast (tl rest))"
    using assms unfolding arrayRegex_def Let_def rest_def [symmetric]
    by (simp split: if_splits)
  have kd: "key = takeWhile (\<lambda>c. c \<noteq> CHR ''['') seg \<and> digits = butlast (tl rest)"
    using assms c unfolding arrayRegex_def Let_def rest_def [symmetric]
    by simp
  have ne: "key \<noteq> []" and len: "3 \<le> length rest" and l: "last rest = CHR '']''"
    and dig: "list_all isDigit digits"
    using c kd by simp_all
  obtain a b t where r0: "rest = a # b # t"
    using len by (cases rest; cases "tl rest") auto
  have h: "a = CHR ''[''"
    using hd_dropWhile [of "\<lambda>c. c \<noteq> CHR ''[''" seg] r0 unfolding rest_def [symmetric] by simp
  have "b # t = butlast (b # t) @ [last (b # t)]"
    by (rule append_butlast_last_id [symmetric]) simp
  then have r: "rest = CHR ''['' # digits @ '']''"
    using r0 h l kd by simp
  have "seg = key @ rest"
    using kd by (simp add: rest_def)
  then show "seg = key @ ''['' @ digits @ '']''"
    using r by simp
  show "key \<noteq> []" by (rule ne)
  have "\<forall>x \<in> set (takeWhile (\<lambda>c. c \<noteq> CHR ''['') seg). x \<noteq> CHR ''[''"
    using set_takeWhileD by fastforce
  then show "CHR ''['' \<notin> set key"
    using kd by blast
  show "digits \<noteq> []"
    using len r by auto
  show "list_all isDigit digits" by (rule dig)
qed

lemma parseKeySegment_plain: "CHR ''['' \<notin> set seg \<Longrightarrow> parseKeySegment seg = Inr (seg, - 1)"
proof -
  assume a: "CHR ''['' \<notin> set seg"
  have d: "dropWhile (\<lambda>c. c \<noteq> CHR ''['') seg = []"
    using a by (auto simp: dropWhile_eq_Nil_conv)
  have "arrayRegex seg = None"
    unfolding arrayRegex_def Let_def d by simp
  then show ?thesis
    using a by (simp add: parseKeySegment_def)
qed

lemma parseKeySegment_InrD:
  "parseKeySegment seg = Inr (key, index) \<Longrightarrow>
     (index = - 1 \<and> key = seg \<and> CHR ''['' \<notin> set seg) \<or>
     (0 \<le> index \<and> (\<exists>digits. arrayRegex seg = Some (key, digits) \<and> index = decVal digits))"
  by (auto simp: parseKeySegment_def Atoi_def split: option.splits if_splits)

lemma parseKeySegment_bad:
  "CHR ''['' \<in> set seg \<Longrightarrow> arrayRegex seg = None \<Longrightarrow>
   parseKeySegment seg = Inl (InvalidArraySyntax seg)"
  by (simp add: parseKeySegment_def)

lemma digit_cases:
  "isDigit c \<Longrightarrow> 0 \<le> digitVal c \<and> digitVal c < 10 \<and> digitChar (digitVal c) = c \<and>
     (c \<noteq> CHR ''0'' \<longrightarrow> 0 < digitVal c)"
  by (auto simp: isDigit_def digitVal_def digitChar_def)

lemma decVal_snoc: "decVal (ds @ [d]) = 10 * decVal ds + digitVal d"
  by (simp add: decVal_def)

lemma decVal_nonneg: "list_all isDigit ds \<Longrightarrow> 0 \<le> decVal ds"
  by (induction ds rule: rev_induct) (auto simp: decVal_snoc digit_cases decVal_def)

lemma decimal_decVal_aux:
  "list_all isDigit ds \<Longrightarrow> ds \<noteq> [] \<Longrightarrow> hd ds \<noteq> CHR ''0'' \<Longrightarrow>
   decimal (decVal ds) = ds \<and> 0 < decVal ds"
proof (induction ds rule: rev_induct)
  case Nil
  then show ?case by simp
next
  case (snoc d ds)
  have dd: "isDigit d" using snoc.prems(1) by simp
  note dc = digit_cases [OF dd]
  show ?case
  proof (cases "ds = []")
    case True
    then have "d \<noteq> CHR ''0''" using snoc.prems(3) by simp
    then show ?thesis
      using True dc by (simp add: decVal_def)
  next
    case False
    then have "hd ds \<noteq> CHR ''0''" using snoc.prems(3) by simp
    then have ih: "decimal (decVal ds) = ds" "0 < decVal ds"
      using snoc.IH snoc.prems(1) False by auto
    have ge: "\<not> 10 * decVal ds + digitVal d < 10"
      using ih(2) dc by linarith
    have dv: "(10 * decVal ds + digitVal d) div 10 = decVal ds"
      using dc by linarith
    have md: "(10 * decVal ds + digitVal d) mod 10 = digitVal d"
      using dc by (simp add: mod_pos_pos_trivial)
    have pos: "0 < decVal (ds @ [d])"
      using ih(2) dc by (simp add: decVal_snoc)
    have "decimal (decVal (ds @ [d])) = decimal (decVal ds) @ [digitChar (digitVal d)]"
      unfolding decVal_snoc
      by (subst decimal.simps) (simp only: ge dv md if_False)
    then show ?thesis
      using ih(1) dc pos by simp
  qed
qed

lemma decimal_zero: "decimal (decVal ''0'') = ''0''"
  by (simp add: decVal_def digitVal_def digitChar_def)

lemma Itoa_decVal:
  assumes "list_all isDigit ds" and "ds \<noteq> []" and "ds = ''0'' \<or> hd ds \<noteq> CHR ''0''"
  shows "Itoa (decVal ds) = ds"
proof -
  have nn: "\<not> decVal ds < 0"
    using decVal_nonneg [OF assms(1)] by simp
  have "decimal (decVal ds) = ds"
  proof (cases "ds = ''0''")
    case True
    then show ?thesis using decimal_zero by simp
  next
    case False
    then have "hd ds \<noteq> CHR ''0''" using assms(3) by blast
    then show ?thesis
      using decimal_decVal_aux [OF assms(1,2)] by blast
  qed
  then show ?thesis
    using nn by (simp add: Itoa_def)
qed

lemma normalizePart_id:
  assumes "\<And>key digits. arrayRegex part = Some (key, digits) \<Longrightarrow>
             digits = ''0'' \<or> hd digits \<noteq> CHR ''0''"
  shows "normalizePart part = part"
proof (cases "parseKeySegment part")
  case (Inl e)
  then show ?thesis by (simp add: normalizePart_def)
next
  case (Inr p)
  obtain key index where p: "p = (key, index)" by (cases p)
  from parseKeySegment_InrD [OF Inr [unfolded p]] show ?thesis
  proof
    assume "index = - 1 \<and> key = part \<and> CHR ''['' \<notin> set part"
    then show ?thesis by (simp add: normalizePart_def)
  next
    assume "0 \<le> index \<and> (\<exists>digits. arrayRegex part = Some (key, digits) \<and> index = decVal digits)"
    then obtain digits where i: "0 \<le> index" and r: "arrayRegex part = Some (key, digits)"
      and v: "index = decVal digits" by blast
    note rd = arrayRegex_SomeD [OF r]
    have "Itoa index = digits"
      unfolding v using rd(4,5) assms [OF r] by (intro Itoa_decVal) auto
    then show ?thesis
      using Inr p i rd(1) by (simp add: normalizePart_def)
  qed
qed

lemma normalizeTOMLKeyPath_id:
  assumes "\<forall>part \<in> set (Split1 (CHR ''.'') keyPath). \<forall>key digits.
             arrayRegex part = Some (key, digits) \<longrightarrow> digits = ''0'' \<or> hd digits \<noteq> CHR ''0''"
  shows "normalizeTOMLKeyPath keyPath = keyPath"
proof -
  have "map normalizePart (Split1 (CHR ''.'') keyPath) = Split1 (CHR ''.'') keyPath"
    using assms by (intro map_idI normalizePart_id) blast
  then show ?thesis
    unfolding normalizeTOMLKeyPath_def using Join_Split1 [of "CHR ''.''" keyPath] by simp
qed

section \<open>Navigation: lemmas\<close>

lemma GetValue_loop_bad:
  "seg \<in> set segs \<Longrightarrow> isl (parseKeySegment seg) \<Longrightarrow> isl (GetValue_loop cur seen segs)"
proof (induction segs arbitrary: cur seen)
  case Nil
  then show ?case by simp
next
  case (Cons s rest)
  show ?case
  proof (cases "parseKeySegment s")
    case (Inl e)
    then show ?thesis by simp
  next
    case (Inr p)
    then have "seg \<noteq> s" using Cons.prems(2) by auto
    then have m: "seg \<in> set rest" using Cons.prems(1) by simp
    then have ne: "rest \<noteq> []" by auto
    show ?thesis
      using Inr ne Cons.IH [OF m Cons.prems(2)]
      by (simp split: sum.splits prod.splits)
  qed
qed

lemma SetValue_loop_descends:
  assumes "fst (SetValue_loop cur seen (s # rest) v) = None" and "rest \<noteq> []"
  shows "\<exists>next. fst (SetValue_loop next (seen @ [s]) rest v) = None"
proof (cases "parseKeySegment s")
  case (Inl e)
  then show ?thesis using assms by simp
next
  case (Inr p)
  obtain key idx where p: "p = (key, idx)" by (cases p)
  show ?thesis
    using assms Inr p
    by (simp split: any.splits option.splits if_splits prod.splits) (metis fst_conv)+
qed

lemma SetValue_loop_bad:
  "seg \<in> set segs \<Longrightarrow> isl (parseKeySegment seg) \<Longrightarrow>
   fst (SetValue_loop cur seen segs v) \<noteq> None"
proof (induction segs arbitrary: cur seen)
  case Nil
  then show ?case by simp
next
  case (Cons s rest)
  show ?case
  proof (cases "parseKeySegment s")
    case (Inl e)
    then show ?thesis by simp
  next
    case (Inr p)
    then have "seg \<noteq> s" using Cons.prems(2) by auto
    then have m: "seg \<in> set rest" using Cons.prems(1) by simp
    then have ne: "rest \<noteq> []" by auto
    show ?thesis
      using SetValue_loop_descends [OF _ ne] Cons.IH [OF m Cons.prems(2)] by blast
  qed
qed

lemma arrayRegex_SomeI:
  assumes "name \<noteq> []" and "CHR ''['' \<notin> set name" and "digits \<noteq> []" and "list_all isDigit digits"
  shows "arrayRegex (name @ ''['' @ digits @ '']'') = Some (name, digits)"
proof -
  have t: "takeWhile (\<lambda>c. c \<noteq> CHR ''['') (name @ CHR ''['' # digits @ '']'') = name"
    using assms(2) by (subst takeWhile_append2) auto
  have d: "dropWhile (\<lambda>c. c \<noteq> CHR ''['') (name @ CHR ''['' # digits @ '']'') =
      CHR ''['' # digits @ '']''"
    using assms(2) by (subst dropWhile_append2) auto
  have l: "Suc 0 \<le> length digits"
    using assms(3) by (cases digits) simp_all
  show ?thesis
    using assms(1,4) l by (simp add: arrayRegex_def Let_def t d)
qed

lemma arrayRegex_iff:
  "arrayRegex seg = Some (name, digits) \<longleftrightarrow>
     seg = name @ ''['' @ digits @ '']'' \<and> name \<noteq> [] \<and> CHR ''['' \<notin> set name \<and>
     digits \<noteq> [] \<and> list_all isDigit digits"
  using arrayRegex_SomeD [of seg name digits] arrayRegex_SomeI [of name digits] by blast



lemma SetValue_loop_plain_last:
  "CHR ''['' \<notin> set s \<Longrightarrow> SetValue_loop cur seen [s] v = setLast cur s (- 1) v"
  by (simp add: parseKeySegment_plain)









lemma SetValue_unfold:
  "SetValue data keyPath v =
     (fst (SetValue_loop (AMap data) [] (Split1 (CHR ''.'') keyPath) v),
      (case snd (SetValue_loop (AMap data) [] (Split1 (CHR ''.'') keyPath) v) of
         AMap d \<Rightarrow> d | _ \<Rightarrow> data))"
  by (simp add: SetValue_def split: prod.splits any.splits)


section \<open>The surgical rewriter: lemmas\<close>





lemma Index_ge: "- 1 \<le> Index s pat"
  by (induction s) auto


lemma Index_missing: "Index s pat < 0 \<Longrightarrow> s \<noteq> p @ pat @ r"
proof (induction s arbitrary: p)
  case Nil
  then show ?case by (auto split: if_splits)
next
  case (Cons c s)
  have np: "\<not> prefix pat (c # s)" and i: "Index s pat < 0"
    using Cons.prems Index_ge [of s pat] by (auto split: if_splits)
  show ?case
  proof (cases p)
    case Nil
    then show ?thesis using np by (auto simp: prefix_def)
  next
    case (Cons a p')
    then show ?thesis using Cons.IH [OF i, of p'] by auto
  qed
qed











































section \<open>Format detection: the claims\<close>

















section \<open>Key paths and navigation: the claims\<close>

text \<open>
  Claim C6, as the specification states it, fails: an empty step, a leading dot and a
  trailing dot are not syntax errors. The segment parser accepts the empty segment as
  the key with the empty name, and \<open>GetValue\<close> walks on and returns the value found there.
\<close>

theorem C6_empty_step_counterexample:
  "parseKeySegment [] = Inr ([], - 1) \<and>
   GetValue [(''a'', AMap [([], AMap [(''b'', AInt 1)])])] ''a..b'' = Inr (AInt 1) \<and>
   GetValue [([], AMap [(''a'', AInt 1)])] ''.a'' = Inr (AInt 1) \<and>
   GetValue [(''a'', AMap [([], AInt 1)])] ''a.'' = Inr (AInt 1)"
  by code_simp

text \<open>
  Claim C6, amended: for every key path one of whose dot-separated segments contains an
  opening bracket and is not of the form \<open>name[digits]\<close> (\<open>name\<close> not empty and free of
  \<open>[\<close>, one decimal digit or more; \<open>arrayRegex\<close> is that pattern, see \<open>arrayRegex_iff\<close>) -
  a negative, non-numeric or empty index, a bracket that is not closed, a missing name -
  the segment parser reports a syntax error for that segment, and \<open>GetValue\<close> and
  \<open>SetValue\<close> return an error, never a value; when the segment is the first one, the
  error is that syntax error. An empty step is taken as the key with the empty name.
\<close>

theorem C6_bracket_syntax_error:
  assumes "seg \<in> set (Split1 (CHR ''.'') keyPath)"
    and "CHR ''['' \<in> set seg"
    and "arrayRegex seg = None"
  shows "parseKeySegment seg = Inl (InvalidArraySyntax seg) \<and>
         isl (GetValue data keyPath) \<and>
         fst (SetValue data keyPath v) \<noteq> None \<and>
         (hd (Split1 (CHR ''.'') keyPath) = seg \<longrightarrow>
            GetValue data keyPath = Inl (InvalidKeySegment seg (InvalidArraySyntax seg)) \<and>
            SetValue data keyPath v = (Some (InvalidKeySegment seg (InvalidArraySyntax seg)), data)) \<and>
         parseKeySegment [] = Inr ([], - 1)"
proof -
  have bad: "parseKeySegment seg = Inl (InvalidArraySyntax seg)"
    using assms(2,3) by (rule parseKeySegment_bad)
  then have b: "isl (parseKeySegment seg)" by simp
  have g: "isl (GetValue data keyPath)"
    unfolding GetValue_def using assms(1) b by (rule GetValue_loop_bad)
  have "fst (SetValue_loop (AMap data) [] (Split1 (CHR ''.'') keyPath) v) \<noteq> None"
    using assms(1) b by (rule SetValue_loop_bad)
  then have s: "fst (SetValue data keyPath v) \<noteq> None"
    by (simp add: SetValue_unfold)
  have f: "GetValue data keyPath = Inl (InvalidKeySegment seg (InvalidArraySyntax seg)) \<and>
      SetValue data keyPath v = (Some (InvalidKeySegment seg (InvalidArraySyntax seg)), data)"
    if h: "hd (Split1 (CHR ''.'') keyPath) = seg"
  proof -
    obtain rest where r: "Split1 (CHR ''.'') keyPath = seg # rest"
      using h Split1_not_Nil [of "CHR ''.''" keyPath] by (cases "Split1 (CHR ''.'') keyPath") auto
    show ?thesis
      using bad r by (simp add: GetValue_def SetValue_def)
  qed
  have e: "parseKeySegment [] = Inr ([], - 1)"
    by (simp add: parseKeySegment_plain)
  show ?thesis
    using bad g s f e by blast
qed

theorem C6_bracket_syntax_error_witness:
  "''db[-1]'' \<in> set (Split1 (CHR ''.'') ''db[-1].host'') \<and> CHR ''['' \<in> set ''db[-1]'' \<and>
   arrayRegex ''db[-1]'' = None \<and>
   GetValue [(''db'', ASlice [AMap [(''host'', AStr ''x'')]])] ''db[-1].host'' =
     Inl (InvalidKeySegment ''db[-1]'' (InvalidArraySyntax ''db[-1]''))"
proof -
  have a: "''db[-1]'' \<in> set (Split1 (CHR ''.'') ''db[-1].host'')"
    by simp
  have b: "CHR ''['' \<in> set ''db[-1]''"
    by simp
  have c: "arrayRegex ''db[-1]'' = None"
    by code_simp
  have h: "hd (Split1 (CHR ''.'') ''db[-1].host'') = ''db[-1]''"
    by simp
  show ?thesis
    using a b c h
      C6_bracket_syntax_error [OF a b c, of "[(''db'', ASlice [AMap [(''host'', AStr ''x'')]])]" ANil]
    by blast
qed

text \<open>
  Claim C7, as the specification states it, fails: the segment parser accepts an index
  written with leading zeros, and rendering prints the index without them, so parsing
  and rendering \<open>a.b[03].c\<close> yields \<open>a.b[3].c\<close>.
\<close>

theorem C7_leading_zero_counterexample:
  "map parseKeySegment (Split1 (CHR ''.'') ''a.b[03].c'') =
     [Inr (''a'', - 1), Inr (''b'', 3), Inr (''c'', - 1)] \<and>
   normalizeTOMLKeyPath ''a.b[03].c'' = ''a.b[3].c'' \<and>
   normalizeTOMLKeyPath ''a.b[03].c'' \<noteq> ''a.b[03].c''"
  by code_simp

text \<open>
  Claim C7, amended: for every key-path string whose indices are written without a
  superfluous leading zero (the digits of each segment of the form \<open>name[digits]\<close> are
  \<open>0\<close> or do not start with \<open>0\<close>), parsing the segments and rendering them back yields
  the identical string: \<open>normalizeTOMLKeyPath\<close> is the identity there, and on \<open>a.b[3].c\<close>.
\<close>

theorem C7_normalize_identity:
  assumes "\<forall>part \<in> set (Split1 (CHR ''.'') keyPath). \<forall>name digits.
             arrayRegex part = Some (name, digits) \<longrightarrow> digits = ''0'' \<or> hd digits \<noteq> CHR ''0''"
  shows "normalizeTOMLKeyPath keyPath = keyPath"
  using assms by (rule normalizeTOMLKeyPath_id)

theorem C7_normalize_identity_witness:
  "map arrayRegex (Split1 (CHR ''.'') ''a.b[3].c'') = [None, Some (''b'', ''3''), None] \<and>
   normalizeTOMLKeyPath ''a.b[3].c'' = ''a.b[3].c''"
proof -
  have s: "Split1 (CHR ''.'') ''a.b[3].c'' = [''a'', ''b[3]'', ''c'']"
    by simp
  have r: "arrayRegex ''a'' = None" "arrayRegex ''b[3]'' = Some (''b'', ''3'')"
    "arrayRegex ''c'' = None"
    by code_simp+
  have h: "\<forall>part \<in> set (Split1 (CHR ''.'') ''a.b[3].c''). \<forall>name digits.
      arrayRegex part = Some (name, digits) \<longrightarrow> digits = ''0'' \<or> hd digits \<noteq> CHR ''0''"
    unfolding s using r by simp
  show ?thesis
    using s r C7_normalize_identity [OF h] by simp
qed



section \<open>Claims about the surgical rewriter\<close>







section \<open>Claims about the line contexts of TOML\<close>




end
